theory Spec2Isabelle
  imports Main
begin

section \<open>The quiz attempt page: data model\<close>

text \<open>
  The development embeds \<^verbatim>\<open>src/app/quiz/[id]/attempt/page.tsx\<close>, the React component
  \<^verbatim>\<open>QuizAttemptPage\<close>. Its \<^verbatim>\<open>useState\<close> cells become the fields of one record; every
  handler becomes a function from the state of the render it closes over to the next
  state. JavaScript runs one handler to completion, and React renders again before the
  next one runs, so a click handler, which the JSX binds anew at every render, reads the
  state its predecessor left. The interval of the countdown is the one callback that
  outlives a render; the section on events keeps the render it closes over.

  JavaScript numbers are modelled as \<^typ>\<open>int\<close> (question numbers, indices and seconds
  are integers in the database and in every place the page computes them).
\<close>

datatype OptionKey = A | B | C | D

datatype QuestionStatus = NotVisited | NotAnswered | Answered | Review

text \<open>
  \<^verbatim>\<open>Question\<close> and \<^verbatim>\<open>Quiz\<close> of the types module, with the fields this page reads. The
  \<^verbatim>\<open>id\<close> fields carry the record's name as a suffix.
\<close>

record Question =
  id_Question :: string
  questionNumber :: int
  questionText :: string
  correctOption :: "OptionKey option"

record Quiz =
  id_Quiz :: string
  title :: string
  timerMinutes :: int
  totalQuestions :: int

text \<open>The authenticated user of the auth context; the page reads \<^verbatim>\<open>user.id\<close> only.\<close>

record User =
  id_User :: string

text \<open>
  \<^verbatim>\<open>answers\<close> is a \<^verbatim>\<open>Record<number, OptionKey>\<close>, a JavaScript object. A key can be
  missing, or present and holding \<^verbatim>\<open>undefined\<close> (which is what \<^verbatim>\<open>selectAnswer\<close> stores
  when it deselects): \<open>None\<close> is a missing key, \<open>Some None\<close> a key holding
  \<^verbatim>\<open>undefined\<close>, \<open>Some (Some k)\<close> a key holding the choice \<open>k\<close>.
\<close>

type_synonym answers_record = "int \<rightharpoonup> OptionKey option"

text \<open>The property read \<^verbatim>\<open>answers[qNum]\<close>: \<open>None\<close> is \<^verbatim>\<open>undefined\<close>.\<close>

definition answer_of :: "answers_record \<Rightarrow> int \<Rightarrow> OptionKey option" where
  "answer_of a qNum = (case a qNum of None \<Rightarrow> None | Some v \<Rightarrow> v)"

text \<open>The row that \<^verbatim>\<open>handleSubmit\<close> inserts into the table \<^verbatim>\<open>attempts\<close>.\<close>

record attempt_row =
  quiz_id :: string
  user_id :: string
  answers_col :: answers_record
  score :: "int option"
  total_questions :: int
  is_graded :: bool

text \<open>
  The state of the component: the nine \<^verbatim>\<open>useState\<close> cells, the \<^verbatim>\<open>user\<close> of the auth
  context and the route parameter \<^verbatim>\<open>quizId\<close>.
\<close>

record attempt_state =
  user :: "User option"
  quizId :: string
  quiz :: "Quiz option"
  questions :: "Question list"
  answers :: answers_record
  currentQ :: int
  visited :: "int set"
  markedForReview :: "int set"
  timeLeft :: int
  submitted :: bool
  loading :: bool

text \<open>The initial values of the \<^verbatim>\<open>useState\<close> calls.\<close>

definition init :: "User option \<Rightarrow> string \<Rightarrow> attempt_state" where
  "init u qid =
     \<lparr>user = u, quizId = qid, quiz = None, questions = [], answers = Map.empty,
      currentQ = 0, visited = {0}, markedForReview = {}, timeLeft = 0,
      submitted = False, loading = True\<rparr>"

section \<open>The handlers\<close>

text \<open>
  \<^verbatim>\<open>questions[index]?.questionNumber\<close>: an index outside the array reads \<^verbatim>\<open>undefined\<close>,
  and the optional chain passes it on.
\<close>

definition questionNumber_at :: "Question list \<Rightarrow> int \<Rightarrow> int option" where
  "questionNumber_at qs index =
     (if 0 \<le> index \<and> index < int (length qs)
      then Some (questionNumber (qs ! nat index)) else None)"

text \<open>
  \<^verbatim>\<open>delete next[qNum]\<close> on a copy of \<^verbatim>\<open>prev\<close>, under the test \<^verbatim>\<open>if (qNum)\<close>: the
  statement that \<^verbatim>\<open>markForReviewAndNext\<close> and \<^verbatim>\<open>clearResponse\<close> share word for word.
  \<^verbatim>\<open>qNum\<close> is a number or \<^verbatim>\<open>undefined\<close>; \<^verbatim>\<open>undefined\<close> and the number 0 are falsy.
\<close>

definition delete_answer :: "int option \<Rightarrow> attempt_state \<Rightarrow> attempt_state" where
  "delete_answer qNum s =
     (case qNum of
        None \<Rightarrow> s
      | Some n \<Rightarrow> if n \<noteq> 0 then s\<lparr>answers := (answers s)(n := None)\<rparr> else s)"

text \<open>
  The object literal that \<^verbatim>\<open>handleSubmit\<close> passes to \<^verbatim>\<open>insert\<close>, built from the values
  of the render \<open>r\<close> that created the callback; \<^verbatim>\<open>questions.length || 50\<close> is 50 for an
  empty array. (The JSON encoding of the request later drops the keys of \<^verbatim>\<open>answers\<close>
  that hold \<^verbatim>\<open>undefined\<close>.)
\<close>

definition new_attempt :: "attempt_state \<Rightarrow> User \<Rightarrow> attempt_row" where
  "new_attempt r u =
     \<lparr>quiz_id = quizId r, user_id = id_User u, answers_col = answers r, score = None,
      total_questions =
        (if length (questions r) = 0 then 50 else int (length (questions r))),
      is_graded = False\<rparr>"

text \<open>
  \<^verbatim>\<open>handleSubmit\<close> up to its first \<^verbatim>\<open>await\<close>: the guard, \<^verbatim>\<open>setSubmitted(true)\<close> and the
  insert it issues. \<^verbatim>\<open>useCallback\<close> makes the function read \<^verbatim>\<open>submitted\<close>, \<^verbatim>\<open>user\<close>,
  \<^verbatim>\<open>quiz\<close>, \<^verbatim>\<open>quizId\<close>, \<^verbatim>\<open>answers\<close> and \<^verbatim>\<open>questions\<close> of the render \<open>r\<close> that created
  it; \<open>s\<close> is the state at the call, which \<^verbatim>\<open>setSubmitted\<close> updates. The SUBMIT button
  calls it with \<open>r = s\<close>. The result pairs the next state with the rows sent to the
  table \<^verbatim>\<open>attempts\<close>. What follows the \<^verbatim>\<open>await\<close> (the quiz's status update and the
  navigation to the results page) touches no state of this component.
\<close>

definition handleSubmit ::
  "attempt_state \<Rightarrow> attempt_state \<Rightarrow> attempt_state \<times> attempt_row list" where
  "handleSubmit r s =
     (if submitted r then (s, [])
      else case user r of
        None \<Rightarrow> (s, [])
      | Some u \<Rightarrow>
          (case quiz r of
             None \<Rightarrow> (s, [])
           | Some q \<Rightarrow> (s\<lparr>submitted := True\<rparr>, [new_attempt r u])))"

definition goToQuestion :: "attempt_state \<Rightarrow> int \<Rightarrow> attempt_state" where
  "goToQuestion s index =
     (if index < 0 \<or> index \<ge> int (length (questions s)) then s
      else s\<lparr>currentQ := index, visited := insert index (visited s)\<rparr>)"

definition selectAnswer :: "attempt_state \<Rightarrow> int \<Rightarrow> OptionKey \<Rightarrow> attempt_state" where
  "selectAnswer s qNum option =
     (if submitted s then s
      else s\<lparr>answers := (answers s)
             (qNum \<mapsto> (if answer_of (answers s) qNum = Some option then None
                        else Some option))\<rparr>)"

definition saveAndNext :: "attempt_state \<Rightarrow> attempt_state" where
  "saveAndNext s =
     (if currentQ s < int (length (questions s)) - 1
      then goToQuestion s (currentQ s + 1) else s)"

text \<open>
  The handlers below read \<^verbatim>\<open>currentQ\<close> and \<^verbatim>\<open>questions\<close> from the render they close
  over (the state \<open>s\<close>) in every statement; their setters touch different cells.
\<close>

definition saveAndMarkForReview :: "attempt_state \<Rightarrow> attempt_state" where
  "saveAndMarkForReview s =
     (let s1 = s\<lparr>markedForReview := insert (currentQ s) (markedForReview s)\<rparr>
      in if currentQ s < int (length (questions s)) - 1
         then goToQuestion s1 (currentQ s + 1) else s1)"

definition markForReviewAndNext :: "attempt_state \<Rightarrow> attempt_state" where
  "markForReviewAndNext s =
     (let s1 = s\<lparr>markedForReview := insert (currentQ s) (markedForReview s)\<rparr>;
          qNum = questionNumber_at (questions s) (currentQ s);
          s2 = delete_answer qNum s1
      in if currentQ s < int (length (questions s)) - 1
         then goToQuestion s2 (currentQ s + 1) else s2)"

definition clearResponse :: "attempt_state \<Rightarrow> attempt_state" where
  "clearResponse s =
     (let qNum = questionNumber_at (questions s) (currentQ s);
          s1 = delete_answer qNum s
      in s1\<lparr>markedForReview := markedForReview s1 - {currentQ s}\<rparr>)"

text \<open>The test \<^verbatim>\<open>qNum && answers[qNum]\<close>; a choice is a non-empty string, so truthy.\<close>

definition answered :: "answers_record \<Rightarrow> int option \<Rightarrow> bool" where
  "answered a qNum =
     (case qNum of None \<Rightarrow> False | Some n \<Rightarrow> n \<noteq> 0 \<and> answer_of a n \<noteq> None)"

definition getQuestionStatus :: "attempt_state \<Rightarrow> int \<Rightarrow> QuestionStatus" where
  "getQuestionStatus s index =
     (if index \<in> markedForReview s then Review
      else if answered (answers s) (questionNumber_at (questions s) index) then Answered
      else if index \<in> visited s then NotAnswered
      else NotVisited)"

text \<open>
  The countdown. The effect of render \<open>r\<close> installs the interval only when
  \<^verbatim>\<open>timeLeft <= 0 || submitted || loading\<close> is false there; one firing of the interval
  runs the updater \<^verbatim>\<open>prev => { if (prev <= 1) { handleSubmit(); return 0; } return prev - 1; }\<close>
  on the state \<open>s\<close> of the moment, with the \<^verbatim>\<open>handleSubmit\<close> of render \<open>r\<close>.
\<close>

definition tick ::
  "attempt_state \<Rightarrow> attempt_state \<Rightarrow> attempt_state \<times> attempt_row list" where
  "tick r s =
     (if timeLeft r \<le> 0 \<or> submitted r \<or> loading r then (s, [])
      else if timeLeft s \<le> 1
           then (let (s', rows) = handleSubmit r s in (s'\<lparr>timeLeft := 0\<rparr>, rows))
           else (s\<lparr>timeLeft := timeLeft s - 1\<rparr>, []))"

section \<open>Events\<close>

text \<open>
  What can happen to a mounted page: the auth context delivers a user, the two awaited
  queries of \<^verbatim>\<open>load\<close> complete, a second passes, or the user clicks a control. The
  controls are those of the JSX; a control that is not rendered, or rendered with
  \<^verbatim>\<open>disabled\<close>, delivers no click.
\<close>

datatype event =
    AuthChanged "User option"
  | QuizLoaded Quiz
  | QuestionsLoaded "Question list"
  | Tick
  | ClickOption OptionKey
  | ClickGrid int
  | ClickSubmit
  | ClickSaveNext
  | ClickSaveMark
  | ClickClear
  | ClickMarkNext
  | ClickBack
  | ClickNext

text \<open>
  The exam screen is rendered only past the two early returns of the component
  (\<^verbatim>\<open>if (loading)\<close> and \<^verbatim>\<open>if (questions.length === 0)\<close>).
\<close>

definition rendered :: "attempt_state \<Rightarrow> bool" where
  "rendered s = (\<not> loading s \<and> length (questions s) \<noteq> 0)"

text \<open>
  \<^verbatim>\<open>load\<close> runs once per mount: the quiz row arrives first (\<^verbatim>\<open>setQuiz\<close>,
  \<^verbatim>\<open>setTimeLeft\<close>), the question rows second (\<^verbatim>\<open>setQuestions\<close> when there are any,
  \<^verbatim>\<open>setLoading(false)\<close>). A failed quiz query leaves the page and changes no state.

  A click reaches the handler of the latest render \<open>s\<close>; a firing of the interval
  reaches the callback of the render \<open>r\<close> whose effect installed it. The option cards
  call \<^verbatim>\<open>selectAnswer(question.questionNumber, opt)\<close> with
  \<^verbatim>\<open>question = questions[currentQ]\<close>, which the render needs to exist.
\<close>

fun handle ::
  "event \<Rightarrow> attempt_state \<Rightarrow> attempt_state \<Rightarrow> attempt_state \<times> attempt_row list" where
  "handle (AuthChanged u) r s = (s\<lparr>user := u\<rparr>, [])"
| "handle (QuizLoaded q) r s =
     (if loading s \<and> quiz s = None
      then (s\<lparr>quiz := Some q, timeLeft := timerMinutes q * 60\<rparr>, [])
      else (s, []))"
| "handle (QuestionsLoaded qs) r s =
     (if loading s \<and> quiz s \<noteq> None
      then ((if length qs > 0 then s\<lparr>questions := qs\<rparr> else s)\<lparr>loading := False\<rparr>, [])
      else (s, []))"
| "handle Tick r s = tick r s"
| "handle (ClickOption opt) r s =
     (if rendered s \<and> 0 \<le> currentQ s \<and> currentQ s < int (length (questions s))
      then (selectAnswer s (questionNumber (questions s ! nat (currentQ s))) opt, [])
      else (s, []))"
| "handle (ClickGrid idx) r s =
     (if rendered s \<and> 0 \<le> idx \<and> idx < int (length (questions s))
      then (goToQuestion s idx, []) else (s, []))"
| "handle ClickSubmit r s =
     (if rendered s \<and> \<not> submitted s then handleSubmit s s else (s, []))"
| "handle ClickSaveNext r s =
     (if rendered s \<and> \<not> submitted s then (saveAndNext s, []) else (s, []))"
| "handle ClickSaveMark r s =
     (if rendered s \<and> \<not> submitted s then (saveAndMarkForReview s, []) else (s, []))"
| "handle ClickClear r s =
     (if rendered s \<and> \<not> submitted s then (clearResponse s, []) else (s, []))"
| "handle ClickMarkNext r s =
     (if rendered s \<and> \<not> submitted s then (markForReviewAndNext s, []) else (s, []))"
| "handle ClickBack r s =
     (if rendered s \<and> \<not> (currentQ s = 0 \<or> submitted s)
      then (goToQuestion s (currentQ s - 1), []) else (s, []))"
| "handle ClickNext r s =
     (if rendered s \<and> \<not> (currentQ s = int (length (questions s)) - 1 \<or> submitted s)
      then (goToQuestion s (currentQ s + 1), []) else (s, []))"

text \<open>
  The mounted page: the latest render, and the render whose countdown effect ran last.
  The effect has the dependencies \<^verbatim>\<open>[timeLeft, submitted, loading]\<close>: it runs again, and
  its interval closes over the new render, exactly when one of the three changed.
\<close>

record page =
  now :: attempt_state
  timer :: attempt_state

definition mount :: "User option \<Rightarrow> string \<Rightarrow> page" where
  "mount u qid = \<lparr>now = init u qid, timer = init u qid\<rparr>"

definition same_deps :: "attempt_state \<Rightarrow> attempt_state \<Rightarrow> bool" where
  "same_deps r s =
     (timeLeft r = timeLeft s \<and> submitted r = submitted s \<and> loading r = loading s)"

definition step :: "event \<Rightarrow> page \<Rightarrow> page \<times> attempt_row list" where
  "step e p =
     (let (s', rows) = handle e (timer p) (now p)
      in (\<lparr>now = s', timer = (if same_deps (now p) s' then timer p else s')\<rparr>, rows))"

text \<open>A run of events, collecting the rows sent to \<^verbatim>\<open>attempts\<close> in order.\<close>

fun run :: "event list \<Rightarrow> page \<Rightarrow> page \<times> attempt_row list" where
  "run [] p = (p, [])"
| "run (e # es) p =
     (let (p1, rows1) = step e p; (p2, rows2) = run es p1 in (p2, rows1 @ rows2))"

text \<open>The countdown effect has run on the values the latest render shows.\<close>

definition synced :: "page \<Rightarrow> bool" where
  "synced p = same_deps (timer p) (now p)"


section \<open>The specification's status rule\<close>

text \<open>
  The status derivation in the specification's words, over the three facts it names:
  the index is marked for review, the question's number has a non-empty entry in the
  answers, the index has been visited. The first rule that matches wins.
\<close>

definition spec_status :: "bool \<Rightarrow> bool \<Rightarrow> bool \<Rightarrow> QuestionStatus" where
  "spec_status marked has_answer was_visited =
     (if marked then Review
      else if has_answer then Answered
      else if was_visited then NotAnswered
      else NotVisited)"

section \<open>Sample sessions\<close>

definition example_questions :: "Question list" where
  "example_questions =
     [\<lparr>id_Question = ''q-1'', questionNumber = 1, questionText = ''First'',
       correctOption = None\<rparr>,
      \<lparr>id_Question = ''q-2'', questionNumber = 2, questionText = ''Second'',
       correctOption = None\<rparr>,
      \<lparr>id_Question = ''q-3'', questionNumber = 3, questionText = ''Third'',
       correctOption = None\<rparr>]"

definition example_quiz :: Quiz where
  "example_quiz =
     \<lparr>id_Quiz = ''quiz-1'', title = ''Sample paper'', timerMinutes = 1, totalQuestions = 3\<rparr>"

definition example_user :: User where
  "example_user = \<lparr>id_User = ''user-1''\<rparr>"

text \<open>
  A session in progress: question 1 answered A and marked for review, the second
  question visited, the first one current again.
\<close>

definition example_session :: attempt_state where
  "example_session =
     \<lparr>user = Some example_user, quizId = ''quiz-1'', quiz = Some example_quiz,
      questions = example_questions, answers = [1 \<mapsto> Some A],
      currentQ = 0, visited = {0, 1}, markedForReview = {0}, timeLeft = 60,
      submitted = False, loading = False\<rparr>"

text \<open>The same session once SUBMIT has been clicked.\<close>

definition example_submitted :: attempt_state where
  "example_submitted = example_session\<lparr>submitted := True\<rparr>"

text \<open>The events of a load that finds the quiz and then its questions.\<close>

definition example_load :: "event list" where
  "example_load = [QuizLoaded example_quiz, QuestionsLoaded example_questions]"

text \<open>The events of a load that finds the quiz and no question.\<close>

definition example_load_empty :: "event list" where
  "example_load_empty = [QuizLoaded example_quiz, QuestionsLoaded []]"

section \<open>Properties of the handlers\<close>

lemma length_example_questions: "length example_questions = 3"
  by (simp add: example_questions_def)

text \<open>The sample sessions are states the page reaches from its mount.\<close>

lemma example_session_reachable:
  "now (fst (run (example_load @ [ClickOption A, ClickSaveMark, ClickBack])
     (mount (Some example_user) ''quiz-1''))) = example_session"
  by (simp add: example_load_def mount_def init_def step_def example_quiz_def
      example_questions_def example_session_def rendered_def selectAnswer_def
      saveAndMarkForReview_def goToQuestion_def same_deps_def answer_of_def insert_commute)

lemma example_submitted_reachable:
  "now (fst (run (example_load @ [ClickOption A, ClickSaveMark, ClickBack, ClickSubmit])
     (mount (Some example_user) ''quiz-1''))) = example_submitted"
  by (simp add: example_load_def mount_def init_def step_def example_quiz_def
      example_questions_def example_submitted_def example_session_def rendered_def
      selectAnswer_def saveAndMarkForReview_def handleSubmit_def goToQuestion_def
      same_deps_def answer_of_def insert_commute)

lemma questionNumber_at_in:
  "0 \<le> i \<Longrightarrow> i < int (length qs) \<Longrightarrow>
     questionNumber_at qs i = Some (questionNumber (qs ! nat i))"
  by (simp add: questionNumber_at_def)

subsection \<open>Status derivation\<close>

text \<open>
  Claim C3. For an index \<open>i\<close> of a question whose number is not 0 (the specification
  numbers questions from 1; JavaScript's test \<^verbatim>\<open>qNum && ...\<close> takes the number 0 for a
  missing one), \<^verbatim>\<open>getQuestionStatus\<close> is the specification's first-match rule: review if
  \<open>i\<close> is marked for review, else answered if the question's number has a non-empty
  entry in the answers, else not-answered if \<open>i\<close> was visited, else not-visited. A
  marked index has the status review whatever its answer.
\<close>

theorem status_precedence:
  "0 \<le> i \<and> i < int (length (questions s)) \<and> questionNumber (questions s ! nat i) \<noteq> 0 \<longrightarrow>
     getQuestionStatus s i =
       spec_status (i \<in> markedForReview s)
         (answer_of (answers s) (questionNumber (questions s ! nat i)) \<noteq> None)
         (i \<in> visited s)
     \<and> (i \<in> markedForReview s \<longrightarrow> getQuestionStatus s i = Review)"
  by (simp add: getQuestionStatus_def spec_status_def answered_def questionNumber_at_in)

theorem status_precedence_witness:
  "getQuestionStatus example_session 0 = Review
   \<and> answer_of (answers example_session) (questionNumber (questions example_session ! nat 0))
       = Some A
   \<and> getQuestionStatus (example_session\<lparr>markedForReview := {}\<rparr>) 0 = Answered"
  using status_precedence [of 0 example_session]
    status_precedence [of 0 "example_session\<lparr>markedForReview := {}\<rparr>"]
  by (simp add: example_session_def example_questions_def spec_status_def answer_of_def)

subsection \<open>Selecting an answer\<close>

text \<open>
  Claim C4, as amended. \<^verbatim>\<open>selectAnswer(q, x)\<close> changes nothing when \<^verbatim>\<open>submitted\<close> is
  true. Otherwise it toggles: the answer read for \<open>q\<close> afterwards is absent if it was
  \<open>x\<close> before and \<open>x\<close> if it was anything else, and the answer of every other question
  number is as before. Two calls in a row therefore restore what the first one did:
  \<open>q\<close> ends absent when its answer was not \<open>x\<close> to begin with, and ends \<open>x\<close> again
  when it was.
\<close>

theorem selectAnswer_toggle:
  "(submitted s \<longrightarrow> selectAnswer s q x = s)
   \<and> (\<not> submitted s \<longrightarrow>
        answer_of (answers (selectAnswer s q x)) q
          = (if answer_of (answers s) q = Some x then None else Some x)
        \<and> (\<forall>q'. q' \<noteq> q \<longrightarrow>
              answer_of (answers (selectAnswer s q x)) q' = answer_of (answers s) q')
        \<and> answer_of (answers (selectAnswer (selectAnswer s q x) q x)) q
          = (if answer_of (answers s) q = Some x then Some x else None))"
  by (simp add: selectAnswer_def answer_of_def)

theorem selectAnswer_toggle_witness:
  "\<not> submitted example_session
   \<and> answer_of (answers example_session) 2 = None
   \<and> answer_of (answers (selectAnswer example_session 2 B)) 2 = Some B
   \<and> answer_of (answers (selectAnswer (selectAnswer example_session 2 B) 2 B)) 2 = None
   \<and> selectAnswer example_submitted 2 B = example_submitted"
  using selectAnswer_toggle [of example_session 2 B]
    selectAnswer_toggle [of example_submitted 2 B]
  by (simp add: example_session_def example_submitted_def answer_of_def)

text \<open>
  The claim as first stated fails where the answer is already \<open>x\<close>: question 1 of the
  sample session holds A, and selecting A twice leaves it holding A.
\<close>

theorem selectAnswer_twice_counterexample:
  "\<not> submitted example_session
   \<and> answer_of (answers (selectAnswer (selectAnswer example_session 1 A) 1 A)) 1 = Some A"
  by (simp add: example_session_def selectAnswer_def answer_of_def)

subsection \<open>Marking for review\<close>

text \<open>
  Claim C8. \<^verbatim>\<open>saveAndMarkForReview\<close> leaves the answers as they are, adds the current
  index to the marked set and then does what \<^verbatim>\<open>saveAndNext\<close> does: it moves to the next
  index when the current one is before the last, and stays at the last question.
\<close>

theorem saveAndMarkForReview_keeps_answers:
  "answers (saveAndMarkForReview s) = answers s
   \<and> markedForReview (saveAndMarkForReview s) = insert (currentQ s) (markedForReview s)
   \<and> saveAndMarkForReview s
       = saveAndNext (s\<lparr>markedForReview := insert (currentQ s) (markedForReview s)\<rparr>)
   \<and> (0 \<le> currentQ s \<and> currentQ s < int (length (questions s)) - 1 \<longrightarrow>
        currentQ (saveAndMarkForReview s) = currentQ s + 1)
   \<and> (int (length (questions s)) - 1 \<le> currentQ s \<longrightarrow>
        currentQ (saveAndMarkForReview s) = currentQ s)"
  by (simp add: saveAndMarkForReview_def saveAndNext_def goToQuestion_def Let_def)

theorem saveAndMarkForReview_keeps_answers_witness:
  "answer_of (answers example_session) 1 = Some A
   \<and> answer_of (answers (saveAndMarkForReview example_session)) 1 = Some A
   \<and> currentQ (saveAndMarkForReview example_session) = 1
   \<and> currentQ (saveAndMarkForReview (example_session\<lparr>currentQ := 2\<rparr>)) = 2"
proof -
  let ?last = "example_session\<lparr>currentQ := 2\<rparr>"
  have first: "0 \<le> currentQ example_session
      \<and> currentQ example_session < int (length (questions example_session)) - 1"
    by (simp add: example_session_def length_example_questions)
  have last: "int (length (questions ?last)) - 1 \<le> currentQ ?last"
    by (simp add: example_session_def length_example_questions)
  from saveAndMarkForReview_keeps_answers [of example_session] first
  have "answers (saveAndMarkForReview example_session) = answers example_session
      \<and> currentQ (saveAndMarkForReview example_session) = currentQ example_session + 1"
    by blast
  moreover from saveAndMarkForReview_keeps_answers [of ?last] last
  have "currentQ (saveAndMarkForReview ?last) = currentQ ?last"
    by blast
  ultimately show ?thesis
    by (simp add: example_session_def answer_of_def)
qed

text \<open>
  Claim C7. \<^verbatim>\<open>markForReviewAndNext\<close> adds the current index to the marked set; when
  there is a current question (the index is inside the question list) and its number
  is not 0, it deletes that number's entry from the answers, so the question that was
  current reads as unanswered afterwards; it then moves to the next index unless the
  current one is the last.
\<close>

theorem markForReviewAndNext_clears_answer:
  "markedForReview (markForReviewAndNext s) = insert (currentQ s) (markedForReview s)
   \<and> (0 \<le> currentQ s \<and> currentQ s < int (length (questions s))
        \<and> questionNumber (questions s ! nat (currentQ s)) \<noteq> 0 \<longrightarrow>
        answers (markForReviewAndNext s)
          = (answers s)(questionNumber (questions s ! nat (currentQ s)) := None)
        \<and> answer_of (answers (markForReviewAndNext s))
            (questionNumber (questions s ! nat (currentQ s))) = None)
   \<and> (0 \<le> currentQ s \<and> currentQ s < int (length (questions s)) - 1 \<longrightarrow>
        currentQ (markForReviewAndNext s) = currentQ s + 1)
   \<and> (int (length (questions s)) - 1 \<le> currentQ s \<longrightarrow>
        currentQ (markForReviewAndNext s) = currentQ s)"
  by (simp add: markForReviewAndNext_def goToQuestion_def delete_answer_def Let_def
      questionNumber_at_def answer_of_def split: option.splits)

theorem markForReviewAndNext_clears_answer_witness:
  "answer_of (answers example_session) 1 = Some A
   \<and> answer_of (answers (markForReviewAndNext example_session)) 1 = None
   \<and> currentQ (markForReviewAndNext example_session) = 1
   \<and> currentQ (markForReviewAndNext (example_session\<lparr>currentQ := 2\<rparr>)) = 2"
proof -
  let ?last = "example_session\<lparr>currentQ := 2\<rparr>"
  have number: "questionNumber (questions example_session ! nat (currentQ example_session)) = 1"
    by (simp add: example_session_def example_questions_def)
  have first: "0 \<le> currentQ example_session
      \<and> currentQ example_session < int (length (questions example_session)) - 1"
    by (simp add: example_session_def length_example_questions)
  have last: "int (length (questions ?last)) - 1 \<le> currentQ ?last"
    by (simp add: example_session_def length_example_questions)
  from markForReviewAndNext_clears_answer [of example_session] first number
  have "answer_of (answers (markForReviewAndNext example_session)) 1 = None
      \<and> currentQ (markForReviewAndNext example_session) = currentQ example_session + 1"
    by (simp add: answer_of_def)
  moreover from markForReviewAndNext_clears_answer [of ?last] last
  have "currentQ (markForReviewAndNext ?last) = currentQ ?last"
    by blast
  ultimately show ?thesis
    by (simp add: example_session_def answer_of_def)
qed

section \<open>Properties of the page\<close>

lemma now_step: "now (fst (step e p)) = fst (handle e (timer p) (now p))"
  by (simp add: step_def split_beta)


text \<open>A property that every step keeps holds after every run.\<close>

lemma run_invariant:
  "(\<And>e q. I q \<Longrightarrow> e \<in> set evs \<Longrightarrow> I (fst (step e q))) \<Longrightarrow> I p \<Longrightarrow> I (fst (run evs p))"
proof (induction evs arbitrary: p)
  case Nil
  then show ?case by simp
next
  case (Cons e es)
  have "I (fst (step e p))" using Cons.prems by simp
  then have "I (fst (run es (fst (step e p))))"
    using Cons.IH Cons.prems(1) by simp
  then show ?case by (simp add: split_beta Let_def)
qed

lemma synced_step: "synced p \<Longrightarrow> synced (fst (step e p))"
  by (auto simp: synced_def step_def same_deps_def split: prod.splits)

lemma synced_mount: "synced (mount u qid)"
  by (simp add: synced_def mount_def same_deps_def)

text \<open>Every page reached from a mount is synced.\<close>

lemma synced_reachable: "synced (fst (run evs (mount u qid)))"
  by (rule run_invariant [where I = synced]) (simp_all add: synced_step synced_mount)

subsection \<open>Submission\<close>


























subsection \<open>A countdown that runs out on an older render\<close>

text \<open>
  The effect that installs the interval depends on \<^verbatim>\<open>timeLeft\<close>, \<^verbatim>\<open>submitted\<close> and
  \<^verbatim>\<open>loading\<close> only, so the \<^verbatim>\<open>handleSubmit\<close> that the interval calls is the one of the last
  render in which one of these changed. The row sent when the countdown runs out is
  that render's: an answer changed since the last second passed is not in it.
\<close>

lemma expiry_sends_the_timer_render:
  "snd (run [ClickOption B, Tick]
      \<lparr>now = example_session\<lparr>timeLeft := 1\<rparr>, timer = example_session\<lparr>timeLeft := 1\<rparr>\<rparr>)
     = [new_attempt (example_session\<lparr>timeLeft := 1\<rparr>) example_user]
   \<and> answer_of (answers_col (new_attempt (example_session\<lparr>timeLeft := 1\<rparr>) example_user)) 1
       = Some A
   \<and> answer_of (answers (now (fst (run [ClickOption B, Tick]
        \<lparr>now = example_session\<lparr>timeLeft := 1\<rparr>, timer = example_session\<lparr>timeLeft := 1\<rparr>\<rparr>)))) 1
       = Some B"
  by (simp add: step_def tick_def handleSubmit_def same_deps_def rendered_def selectAnswer_def
      example_session_def example_questions_def new_attempt_def answer_of_def)

text \<open>
  Claim C10 fails on the code. The guard of \<^verbatim>\<open>handleSubmit\<close> is as the claim says, and a
  click on SUBMIT without a user does nothing. But the page loads with a user, 59
  seconds of the one-minute countdown pass, the auth context then delivers no user (a
  sign-out), and the state has no user, is unsubmitted and has one second left. The
  second that follows calls the \<^verbatim>\<open>handleSubmit\<close> of the render of the 59th second, which
  still holds the user: \<^verbatim>\<open>submitted\<close> becomes true and a row with the old user id is
  sent.
\<close>

theorem expiry_after_sign_out_submits:
  "user (now (fst (run (example_load @ replicate 59 Tick @ [AuthChanged None])
       (mount (Some example_user) ''quiz-1'')))) = None
   \<and> \<not> submitted (now (fst (run (example_load @ replicate 59 Tick @ [AuthChanged None])
       (mount (Some example_user) ''quiz-1''))))
   \<and> timeLeft (now (fst (run (example_load @ replicate 59 Tick @ [AuthChanged None])
       (mount (Some example_user) ''quiz-1'')))) = 1
   \<and> snd (run (example_load @ replicate 59 Tick @ [AuthChanged None, ClickSubmit])
       (mount (Some example_user) ''quiz-1'')) = []
   \<and> submitted (now (fst (run (example_load @ replicate 59 Tick @ [AuthChanged None, Tick])
       (mount (Some example_user) ''quiz-1''))))
   \<and> snd (run (example_load @ replicate 59 Tick @ [AuthChanged None, Tick])
       (mount (Some example_user) ''quiz-1''))
       = [\<lparr>quiz_id = ''quiz-1'', user_id = ''user-1'', answers_col = Map.empty, score = None,
           total_questions = 3, is_graded = False\<rparr>]"
  by (simp add: eval_nat_numeral example_load_def example_quiz_def example_questions_def
      example_user_def mount_def init_def step_def tick_def handleSubmit_def same_deps_def
      rendered_def new_attempt_def)

subsection \<open>The countdown\<close>

lemma timeLeft_handle_nonneg:
  "0 \<le> timeLeft s \<Longrightarrow> (\<And>q. e = QuizLoaded q \<Longrightarrow> 0 \<le> timerMinutes q) \<Longrightarrow>
     0 \<le> timeLeft (fst (handle e r s))"
  by (cases e)
    (auto simp: tick_def split_beta selectAnswer_def goToQuestion_def saveAndNext_def
      saveAndMarkForReview_def markForReviewAndNext_def clearResponse_def delete_answer_def
      handleSubmit_def Let_def split: option.splits)

lemma timeLeft_reachable_nonneg:
  assumes "\<And>q. QuizLoaded q \<in> set evs \<Longrightarrow> 0 \<le> timerMinutes q"
  shows "0 \<le> timeLeft (now (fst (run evs (mount u qid))))"
proof (rule run_invariant [where I = "\<lambda>p::page. 0 \<le> timeLeft (now p)"])
  show "0 \<le> timeLeft (now (mount u qid))" by (simp add: mount_def init_def)
next
  fix e and q :: page assume "0 \<le> timeLeft (now q)" "e \<in> set evs"
  then have "0 \<le> timeLeft (fst (handle e (timer q) (now q)))"
    using assms by (intro timeLeft_handle_nonneg) auto
  then show "0 \<le> timeLeft (now (fst (step e q)))"
    by (simp add: now_step)
qed

text \<open>
  Claim C2. While the interval runs (its render has time left and is neither submitted
  nor loading) a firing sets the time to the old time less one, floored at 0. The firing
  that finds at most one second left calls \<^verbatim>\<open>handleSubmit\<close> once and sets the time to 0;
  an earlier one only decrements. No interval runs for a render that is loading or
  submitted, or whose time is up, so a second passing changes nothing there. In every
  state the page reaches from its mount the time left is not negative, the loaded quiz
  having a timer of zero minutes or more.
\<close>

theorem countdown_tick:
  "(\<not> (timeLeft r \<le> 0 \<or> submitted r \<or> loading r) \<longrightarrow>
      timeLeft (fst (tick r s)) = max 0 (timeLeft s - 1)
      \<and> (timeLeft s \<le> 1 \<longrightarrow>
            tick r s = ((fst (handleSubmit r s))\<lparr>timeLeft := 0\<rparr>, snd (handleSubmit r s)))
      \<and> (1 < timeLeft s \<longrightarrow> tick r s = (s\<lparr>timeLeft := timeLeft s - 1\<rparr>, [])))
   \<and> (timeLeft r \<le> 0 \<or> submitted r \<or> loading r \<longrightarrow> tick r s = (s, []))
   \<and> (synced p \<and> (loading (now p) \<or> submitted (now p)) \<longrightarrow> step Tick p = (p, []))
   \<and> (synced p \<and> 0 < timeLeft (now p) \<and> \<not> loading (now p) \<and> \<not> submitted (now p) \<longrightarrow>
        timeLeft (now (fst (step Tick p))) = timeLeft (now p) - 1)
   \<and> ((\<forall>q. QuizLoaded q \<in> set evs \<longrightarrow> 0 \<le> timerMinutes q) \<longrightarrow>
        0 \<le> timeLeft (now (fst (run evs (mount u qid)))))"
proof -
  have 1: "\<not> (timeLeft r \<le> 0 \<or> submitted r \<or> loading r) \<longrightarrow>
      timeLeft (fst (tick r s)) = max 0 (timeLeft s - 1)
      \<and> (timeLeft s \<le> 1 \<longrightarrow>
            tick r s = ((fst (handleSubmit r s))\<lparr>timeLeft := 0\<rparr>, snd (handleSubmit r s)))
      \<and> (1 < timeLeft s \<longrightarrow> tick r s = (s\<lparr>timeLeft := timeLeft s - 1\<rparr>, []))"
    by (simp add: tick_def split_beta)
  have 2: "timeLeft r \<le> 0 \<or> submitted r \<or> loading r \<longrightarrow> tick r s = (s, [])"
    by (auto simp: tick_def)
  have 3: "synced p \<and> (loading (now p) \<or> submitted (now p)) \<longrightarrow> step Tick p = (p, [])"
    by (auto simp: step_def tick_def synced_def same_deps_def)
  have 4: "synced p \<and> 0 < timeLeft (now p) \<and> \<not> loading (now p) \<and> \<not> submitted (now p) \<longrightarrow>
        timeLeft (now (fst (step Tick p))) = timeLeft (now p) - 1"
    by (auto simp: now_step tick_def synced_def same_deps_def split_beta)
  have 5: "(\<forall>q. QuizLoaded q \<in> set evs \<longrightarrow> 0 \<le> timerMinutes q) \<longrightarrow>
        0 \<le> timeLeft (now (fst (run evs (mount u qid))))"
    using timeLeft_reachable_nonneg by blast
  from 1 2 3 4 5 show ?thesis by blast
qed

theorem countdown_tick_witness:
  "timeLeft example_session = 60
   \<and> timeLeft (fst (tick example_session example_session)) = 59
   \<and> tick (example_session\<lparr>timeLeft := 1\<rparr>) (example_session\<lparr>timeLeft := 1\<rparr>)
       = (example_submitted\<lparr>timeLeft := 0\<rparr>,
          [new_attempt (example_session\<lparr>timeLeft := 1\<rparr>) example_user])
   \<and> tick example_submitted example_submitted = (example_submitted, [])
   \<and> step Tick \<lparr>now = example_submitted, timer = example_submitted\<rparr>
       = (\<lparr>now = example_submitted, timer = example_submitted\<rparr>, [])
   \<and> timeLeft (now (fst (step Tick \<lparr>now = example_session, timer = example_session\<rparr>)))
       = 59
   \<and> 0 \<le> timeLeft (now (fst (run (example_load @ [Tick, ClickNext, Tick])
             (mount (Some example_user) ''quiz-1''))))"
proof -
  let ?one = "example_session\<lparr>timeLeft := 1\<rparr>"
  let ?p = "\<lparr>now = example_submitted, timer = example_submitted\<rparr>"
  let ?running = "\<lparr>now = example_session, timer = example_session\<rparr>"
  let ?evs = "example_load @ [Tick, ClickNext, Tick]"
  have a: "\<not> (timeLeft example_session \<le> 0 \<or> submitted example_session
      \<or> loading example_session) \<and> 1 < timeLeft example_session"
    by (simp add: example_session_def)
  have b: "\<not> (timeLeft ?one \<le> 0 \<or> submitted ?one \<or> loading ?one) \<and> timeLeft ?one \<le> 1"
    by (simp add: example_session_def)
  have c: "timeLeft example_submitted \<le> 0 \<or> submitted example_submitted
      \<or> loading example_submitted"
    by (simp add: example_submitted_def)
  have d: "synced ?p \<and> (loading (now ?p) \<or> submitted (now ?p))"
    by (simp add: synced_def same_deps_def example_submitted_def)
  have d': "synced ?running \<and> 0 < timeLeft (now ?running) \<and> \<not> loading (now ?running)
      \<and> \<not> submitted (now ?running)"
    by (simp add: synced_def same_deps_def example_session_def)
  have e: "\<forall>q. QuizLoaded q \<in> set ?evs \<longrightarrow> 0 \<le> timerMinutes q"
    by (simp add: example_load_def example_quiz_def)
  have "timeLeft (fst (tick example_session example_session))
      = max 0 (timeLeft example_session - 1)"
    using countdown_tick [where r = example_session and s = example_session] a by blast
  moreover have "tick ?one ?one
      = ((fst (handleSubmit ?one ?one))\<lparr>timeLeft := 0\<rparr>, snd (handleSubmit ?one ?one))"
    using countdown_tick [where r = ?one and s = ?one] b by blast
  moreover have "tick example_submitted example_submitted = (example_submitted, [])"
    using countdown_tick [where r = example_submitted and s = example_submitted] c by blast
  moreover have "step Tick ?p = (?p, [])"
    using countdown_tick [where p = ?p] d by blast
  moreover have "timeLeft (now (fst (step Tick ?running))) = timeLeft (now ?running) - 1"
    using countdown_tick [where p = ?running] d' by blast
  moreover have "0 \<le> timeLeft (now (fst (run ?evs (mount (Some example_user) ''quiz-1''))))"
    using countdown_tick [where evs = ?evs and u = "Some example_user" and qid = "''quiz-1''"] e
    by blast
  ultimately show ?thesis
    by (simp add: example_session_def example_submitted_def handleSubmit_def)
qed

subsection \<open>After submission\<close>

lemma handle_submitted_frame:
  "submitted s \<Longrightarrow>
     answers (fst (handle e r s)) = answers s
     \<and> markedForReview (fst (handle e r s)) = markedForReview s
     \<and> ((\<forall>idx. e \<noteq> ClickGrid idx) \<longrightarrow> currentQ (fst (handle e r s)) = currentQ s)"
  by (cases e)
    (auto simp: tick_def split_beta selectAnswer_def goToQuestion_def handleSubmit_def
      split: option.splits)

text \<open>
  What a submitted page keeps: \<^verbatim>\<open>selectAnswer\<close> changes nothing, no event changes the
  answers or the marked set (the buttons of the action bar are rendered disabled, so
  their handlers are not called), and no event other than a click on the question grid
  changes the current index.
\<close>

lemma submitted_session_frozen:
  "(submitted s \<longrightarrow> selectAnswer s q x = s)
   \<and> (submitted (now p) \<longrightarrow>
        answers (now (fst (step e p))) = answers (now p)
        \<and> markedForReview (now (fst (step e p))) = markedForReview (now p)
        \<and> ((\<forall>idx. e \<noteq> ClickGrid idx) \<longrightarrow> currentQ (now (fst (step e p))) = currentQ (now p)))"
  using handle_submitted_frame [of "now p" e "timer p"]
  by (simp add: now_step selectAnswer_def)

text \<open>
  Claim C5 fails on the code. The buttons of the question grid carry no \<^verbatim>\<open>disabled\<close>
  attribute, unlike BACK and NEXT, which call the same \<^verbatim>\<open>goToQuestion\<close>. On the sample
  session, submitted by a click on SUBMIT with the first question current, a click on
  NEXT changes nothing, and a click on the third button of the grid moves the current
  index from 0 to 2 and adds 2 to the visited set.
\<close>

theorem grid_click_moves_submitted_session:
  "submitted (now (fst (run
       (example_load @ [ClickOption A, ClickSaveMark, ClickBack, ClickSubmit])
       (mount (Some example_user) ''quiz-1''))))
   \<and> currentQ (now (fst (run
       (example_load @ [ClickOption A, ClickSaveMark, ClickBack, ClickSubmit])
       (mount (Some example_user) ''quiz-1'')))) = 0
   \<and> currentQ (now (fst (run
       (example_load @ [ClickOption A, ClickSaveMark, ClickBack, ClickSubmit, ClickNext])
       (mount (Some example_user) ''quiz-1'')))) = 0
   \<and> submitted (now (fst (run
       (example_load @ [ClickOption A, ClickSaveMark, ClickBack, ClickSubmit, ClickGrid 2])
       (mount (Some example_user) ''quiz-1''))))
   \<and> currentQ (now (fst (run
       (example_load @ [ClickOption A, ClickSaveMark, ClickBack, ClickSubmit, ClickGrid 2])
       (mount (Some example_user) ''quiz-1'')))) = 2
   \<and> 2 \<in> visited (now (fst (run
       (example_load @ [ClickOption A, ClickSaveMark, ClickBack, ClickSubmit, ClickGrid 2])
       (mount (Some example_user) ''quiz-1''))))"
  by (simp add: example_load_def mount_def init_def step_def example_quiz_def
      example_questions_def rendered_def selectAnswer_def saveAndMarkForReview_def
      handleSubmit_def goToQuestion_def same_deps_def answer_of_def new_attempt_def)

subsection \<open>Navigation\<close>

lemma index_handle:
  "(questions s = [] \<and> currentQ s = 0)
     \<or> (\<not> loading s \<and> 0 \<le> currentQ s \<and> currentQ s < int (length (questions s))) \<Longrightarrow>
   (questions (fst (handle e r s)) = [] \<and> currentQ (fst (handle e r s)) = 0)
     \<or> (\<not> loading (fst (handle e r s)) \<and> 0 \<le> currentQ (fst (handle e r s))
         \<and> currentQ (fst (handle e r s)) < int (length (questions (fst (handle e r s)))))"
  by (cases e)
    (auto simp: tick_def split_beta selectAnswer_def goToQuestion_def saveAndNext_def
      saveAndMarkForReview_def markForReviewAndNext_def clearResponse_def delete_answer_def
      handleSubmit_def rendered_def Let_def split: option.splits)

text \<open>
  Before the questions arrive the list is empty and the index is 0; from then on the
  index points into the list.
\<close>

lemma index_reachable:
  "questions (now (fst (run evs (mount u qid)))) \<noteq> [] \<Longrightarrow>
     0 \<le> currentQ (now (fst (run evs (mount u qid))))
     \<and> currentQ (now (fst (run evs (mount u qid))))
         < int (length (questions (now (fst (run evs (mount u qid))))))"
proof -
  let ?I = "\<lambda>p::page. (questions (now p) = [] \<and> currentQ (now p) = 0)
     \<or> (\<not> loading (now p) \<and> 0 \<le> currentQ (now p)
         \<and> currentQ (now p) < int (length (questions (now p))))"
  have "?I (fst (run evs (mount u qid)))"
  proof (rule run_invariant [where I = ?I])
    show "?I (mount u qid)" by (simp add: mount_def init_def)
  next
    fix e and q :: page assume "?I q"
    then show "?I (fst (step e q))"
      using index_handle [of "now q" e "timer q"] by (simp add: now_step)
  qed
  then show "questions (now (fst (run evs (mount u qid)))) \<noteq> [] \<Longrightarrow> ?thesis" by blast
qed

text \<open>
  Claim C6. \<^verbatim>\<open>goToQuestion(index)\<close> changes nothing for an index below 0 or at or above
  the number of questions; for an index inside it sets the current index to it and adds
  it to the visited set; it never changes the answers. The status of an inside index
  right after going to it is answered, not-answered or review, never not-visited. A
  current index inside the question list stays inside, and it is inside in every state
  the page reaches from its mount once there are questions.
\<close>

theorem goToQuestion_in_range:
  "(index < 0 \<or> int (length (questions s)) \<le> index \<longrightarrow> goToQuestion s index = s)
   \<and> (0 \<le> index \<and> index < int (length (questions s)) \<longrightarrow>
        goToQuestion s index = s\<lparr>currentQ := index, visited := insert index (visited s)\<rparr>
        \<and> getQuestionStatus (goToQuestion s index) index \<in> {Answered, NotAnswered, Review}
        \<and> getQuestionStatus (goToQuestion s index) index \<noteq> NotVisited)
   \<and> answers (goToQuestion s index) = answers s
   \<and> (0 \<le> currentQ s \<and> currentQ s < int (length (questions s)) \<longrightarrow>
        0 \<le> currentQ (goToQuestion s index)
        \<and> currentQ (goToQuestion s index) < int (length (questions (goToQuestion s index))))
   \<and> (questions (now (fst (run evs (mount u qid)))) \<noteq> [] \<longrightarrow>
        0 \<le> currentQ (now (fst (run evs (mount u qid))))
        \<and> currentQ (now (fst (run evs (mount u qid))))
            < int (length (questions (now (fst (run evs (mount u qid)))))))"
proof -
  have 1: "index < 0 \<or> int (length (questions s)) \<le> index \<longrightarrow> goToQuestion s index = s"
    by (auto simp: goToQuestion_def)
  have 2: "0 \<le> index \<and> index < int (length (questions s)) \<longrightarrow>
        goToQuestion s index = s\<lparr>currentQ := index, visited := insert index (visited s)\<rparr>
        \<and> getQuestionStatus (goToQuestion s index) index \<in> {Answered, NotAnswered, Review}
        \<and> getQuestionStatus (goToQuestion s index) index \<noteq> NotVisited"
    by (simp add: goToQuestion_def getQuestionStatus_def)
  have 3: "answers (goToQuestion s index) = answers s"
    by (simp add: goToQuestion_def)
  have 4: "0 \<le> currentQ s \<and> currentQ s < int (length (questions s)) \<longrightarrow>
        0 \<le> currentQ (goToQuestion s index)
        \<and> currentQ (goToQuestion s index) < int (length (questions (goToQuestion s index)))"
    by (simp add: goToQuestion_def)
  from 1 2 3 4 index_reachable [of evs u qid] show ?thesis by blast
qed

theorem goToQuestion_in_range_witness:
  "goToQuestion example_session 3 = example_session
   \<and> goToQuestion example_session (- 1) = example_session
   \<and> getQuestionStatus example_session 2 = NotVisited
   \<and> currentQ (goToQuestion example_session 2) = 2
   \<and> getQuestionStatus (goToQuestion example_session 2) 2 = NotAnswered
   \<and> currentQ (goToQuestion example_session 5) < 3
   \<and> 0 \<le> currentQ (now (fst (run (example_load @ [ClickNext, ClickNext, ClickNext, ClickGrid 7])
             (mount (Some example_user) ''quiz-1''))))
   \<and> currentQ (now (fst (run (example_load @ [ClickNext, ClickNext, ClickNext, ClickGrid 7])
             (mount (Some example_user) ''quiz-1'')))) < 3"
proof -
  let ?evs = "example_load @ [ClickNext, ClickNext, ClickNext, ClickGrid 7]"
  let ?end = "now (fst (run ?evs (mount (Some example_user) ''quiz-1'')))"
  have out: "int (length (questions example_session)) \<le> 3" "(- 1 :: int) < 0"
    by (simp_all add: example_session_def length_example_questions)
  have inside: "(0::int) \<le> 2 \<and> 2 < int (length (questions example_session))"
    by (simp add: example_session_def length_example_questions)
  have current: "0 \<le> currentQ example_session
      \<and> currentQ example_session < int (length (questions example_session))"
    by (simp add: example_session_def length_example_questions)
  have qs: "questions ?end = example_questions"
    by (simp add: example_load_def example_quiz_def example_questions_def mount_def init_def
        step_def rendered_def goToQuestion_def same_deps_def)
  then have nonempty: "questions ?end \<noteq> []"
    by (simp add: example_questions_def)
  have "goToQuestion example_session 3 = example_session"
    using goToQuestion_in_range [where s = example_session and index = 3] out by blast
  moreover have "goToQuestion example_session (- 1) = example_session"
    using goToQuestion_in_range [where s = example_session and index = "- 1"] out by blast
  moreover have "goToQuestion example_session 2
        = example_session\<lparr>currentQ := 2, visited := insert 2 (visited example_session)\<rparr>
      \<and> getQuestionStatus (goToQuestion example_session 2) 2 \<noteq> NotVisited"
    using goToQuestion_in_range [where s = example_session and index = 2] inside by blast
  moreover have "currentQ (goToQuestion example_session 5)
      < int (length (questions (goToQuestion example_session 5)))"
    using goToQuestion_in_range [where s = example_session and index = 5] current by blast
  moreover have "questions (goToQuestion example_session 5) = example_questions"
    by (simp add: goToQuestion_def example_session_def)
  moreover have "0 \<le> currentQ ?end \<and> currentQ ?end < int (length (questions ?end))"
    using goToQuestion_in_range [where evs = ?evs and u = "Some example_user"
        and qid = "''quiz-1''"] nonempty
    by blast
  ultimately show ?thesis
    by (simp add: qs length_example_questions example_session_def example_questions_def
        getQuestionStatus_def answered_def questionNumber_at_def answer_of_def)
qed

subsection \<open>A load that finds no questions\<close>

text \<open>
  Once the load has completed without questions the question list stays empty, so the
  exam screen is never rendered.
\<close>

lemma no_questions_stay:
  "\<not> loading (now p) \<Longrightarrow> questions (now p) = [] \<Longrightarrow>
     \<not> loading (now (fst (run evs p))) \<and> questions (now (fst (run evs p))) = []"
proof (rule run_invariant [where I = "\<lambda>p::page. \<not> loading (now p) \<and> questions (now p) = []"])
  fix e and q :: page assume "\<not> loading (now q) \<and> questions (now q) = []"
  then show "\<not> loading (now (fst (step e q))) \<and> questions (now (fst (step e q))) = []"
    by (cases e)
      (auto simp: now_step tick_def split_beta handleSubmit_def rendered_def
        split: option.splits)
qed simp

text \<open>
  Claim C9 fails on the code. The countdown does not look at the questions: a load that
  finds the quiz (a timer of one minute) and no questions leaves the page on its
  no-questions screen, unsubmitted, and sixty seconds later the interval calls
  \<^verbatim>\<open>handleSubmit\<close>, which sets \<^verbatim>\<open>submitted\<close> and sends a row with no answers and a
  question count of 50.
\<close>

theorem no_questions_session_gets_submitted:
  "\<not> loading (now (fst (run example_load_empty (mount (Some example_user) ''quiz-1''))))
   \<and> questions (now (fst (run example_load_empty (mount (Some example_user) ''quiz-1'')))) = []
   \<and> \<not> submitted (now (fst (run example_load_empty (mount (Some example_user) ''quiz-1''))))
   \<and> questions (now (fst (run (example_load_empty @ replicate 60 Tick)
         (mount (Some example_user) ''quiz-1'')))) = []
   \<and> submitted (now (fst (run (example_load_empty @ replicate 60 Tick)
         (mount (Some example_user) ''quiz-1''))))
   \<and> snd (run (example_load_empty @ replicate 60 Tick) (mount (Some example_user) ''quiz-1''))
       = [\<lparr>quiz_id = ''quiz-1'', user_id = ''user-1'', answers_col = Map.empty, score = None,
           total_questions = 50, is_graded = False\<rparr>]"
  by (simp add: eval_nat_numeral example_load_empty_def example_quiz_def example_user_def
      mount_def init_def step_def tick_def handleSubmit_def same_deps_def new_attempt_def)

end
